theory Spec2Isabelle
  imports Complex_Main "HOL-Library.Product_Lexorder"
begin

section \<open>Price slots\<close>

text \<open>
  One element of the list built by \<^verbatim>\<open>get_electricity_prices\<close>: the dict
  \<^verbatim>\<open>{'datetime': ..., 'level': ..., 'price': ..., 'charge': None}\<close>.
  The start of the hour is kept in seconds (UTC), the price as an exact rational.
  The field \<^verbatim>\<open>charge\<close> is Python's \<^verbatim>\<open>None\<close> / \<^verbatim>\<open>True\<close> / \<^verbatim>\<open>False\<close>:
  no decision yet, marked for charging, marked as not fit for charging.
\<close>

record price_slot =
  datetime :: int
  level :: string
  price :: rat
  charge :: "bool option"

abbreviation UNDECIDED :: "bool option" where "UNDECIDED \<equiv> None"
abbreviation RESERVED :: "bool option" where "RESERVED \<equiv> Some True"
abbreviation BLOCKED :: "bool option" where "BLOCKED \<equiv> Some False"

section \<open>Python list slicing\<close>

text \<open>
  \<^verbatim>\<open>xs[a:b]\<close> for integer bounds: a negative bound counts from the end, every
  bound is clipped to the list, and an empty range gives the empty list.
\<close>

definition py_clip :: "nat \<Rightarrow> int \<Rightarrow> nat" where
  "py_clip n i = (if i < 0 then nat (max 0 (int n + i)) else min n (nat i))"

definition py_slice :: "'a list \<Rightarrow> int \<Rightarrow> int \<Rightarrow> 'a list" where
  "py_slice xs a b =
     (let lo = py_clip (length xs) a; hi = py_clip (length xs) b
      in take (hi - lo) (drop lo xs))"

section \<open>The slot scheduler: \<^verbatim>\<open>update_charge\<close>\<close>

text \<open>
  \<^verbatim>\<open>update_charge(prices, hours_needed, hours_budget, hours_duration)\<close>, lines 156
  to 216 of \<^verbatim>\<open>price_based_charging.py\<close>. The three numbers are integers: the
  caller computes them with \<^verbatim>\<open>math.ceil\<close> and \<^verbatim>\<open>math.floor\<close>. Python's
  \<^verbatim>\<open>sorted\<close> is stable, as \<open>sort_key\<close> is, and orders tuples
  lexicographically.

  The inner loops of the two marking passes. Each walks the selected slots and
  compares start times; only the \<^verbatim>\<open>datetime\<close> of a selected slot is read, and no
  \<^verbatim>\<open>datetime\<close> is ever written, so the selected slots can be held by value.
\<close>

fun mark_charging :: "price_slot \<Rightarrow> price_slot list \<Rightarrow> price_slot" where
  "mark_charging p [] = p"
| "mark_charging p (s # sel) =
     mark_charging (if datetime p = datetime s then p\<lparr>charge := Some True\<rparr> else p) sel"

fun mark_not_charging :: "price_slot \<Rightarrow> price_slot list \<Rightarrow> price_slot" where
  "mark_not_charging p [] = p"
| "mark_not_charging p (s # sel) =
     mark_not_charging
       (if datetime p = datetime s \<and> charge p \<noteq> Some True
        then p\<lparr>charge := Some False\<rparr> else p) sel"

text \<open>The slots of the deadline window: \<^verbatim>\<open>cutprices\<close> of the first half.\<close>

definition cutprices :: "price_slot list \<Rightarrow> int \<Rightarrow> price_slot list" where
  "cutprices prices hours_budget =
     (let newprices = filter (\<lambda>i. charge i = None) prices;
          orderednewprices = sort_key datetime newprices
      in py_slice orderednewprices 0
           (min (int (length orderednewprices)) hours_budget))"

text \<open>The slots picked for charging: \<^verbatim>\<open>cutorderedcutprices\<close>.\<close>

definition cutorderedcutprices :: "price_slot list \<Rightarrow> int \<Rightarrow> int \<Rightarrow> price_slot list" where
  "cutorderedcutprices prices hours_needed hours_budget =
     (let cutprices0 = cutprices prices hours_budget;
          orderedcutprices = sort_key (\<lambda>d. (price d, datetime d)) cutprices0
      in py_slice orderedcutprices 0
           (min (int (length orderedcutprices)) hours_needed))"

text \<open>The slots of the away window: the second \<^verbatim>\<open>cutprices\<close>.\<close>

definition cutprices_away :: "price_slot list \<Rightarrow> int \<Rightarrow> int \<Rightarrow> price_slot list" where
  "cutprices_away prices hours_budget hours_duration =
     (let orderedprices = sort_key datetime prices
      in py_slice orderedprices
           (min (int (length orderedprices)) (hours_budget + 1))
           (min (int (length orderedprices)) (hours_budget + hours_duration + 1)))"

definition reserve_pass :: "price_slot list \<Rightarrow> int \<Rightarrow> int \<Rightarrow> price_slot list" where
  "reserve_pass prices hours_needed hours_budget =
     map (\<lambda>p. mark_charging p (cutorderedcutprices prices hours_needed hours_budget)) prices"

definition block_pass :: "price_slot list \<Rightarrow> int \<Rightarrow> int \<Rightarrow> price_slot list" where
  "block_pass prices hours_budget hours_duration =
     map (\<lambda>p. mark_not_charging p (cutprices_away prices hours_budget hours_duration)) prices"

definition update_charge :: "price_slot list \<Rightarrow> int \<Rightarrow> int \<Rightarrow> int \<Rightarrow> price_slot list" where
  "update_charge prices hours_needed hours_budget0 hours_duration =
     (let hours_budget = max 1 hours_budget0
      in block_pass (reserve_pass prices hours_needed hours_budget)
           hours_budget hours_duration)"


text \<open>
  How many slots one call newly marks for charging: the positions whose
  \<^verbatim>\<open>charge\<close> is \<^verbatim>\<open>True\<close> after the call and was not before.
\<close>

definition newly_reserved :: "price_slot list \<Rightarrow> price_slot list \<Rightarrow> nat" where
  "newly_reserved before after =
     length (filter (\<lambda>(b, a). charge b \<noteq> Some True \<and> charge a = Some True) (zip before after))"


section \<open>The price source: \<^verbatim>\<open>get_electricity_prices\<close>\<close>

datatype py_error = TypeError | IndexError | ZeroDivisionError

text \<open>
  What the database gave: no connection, or the rows of the query, each
  \<^verbatim>\<open>(datetime_from, cost_kWh_level, cost_kWh_total)\<close>, ascending by time.
\<close>

datatype db_result = ConnectFailed | Rows "(int \<times> string \<times> rat) list"

text \<open>
  What \<^verbatim>\<open>get_electricity_prices\<close> returns: the integer \<^verbatim>\<open>-1\<close> after a failed
  connection, the list of slots otherwise.
\<close>

datatype fetched = Minus_One | Prices "price_slot list"

definition slot_of_record :: "int \<times> string \<times> rat \<Rightarrow> price_slot" where
  "slot_of_record r =
     (case r of (d, l, p) \<Rightarrow> \<lparr>datetime = d, level = l, price = p, charge = None\<rparr>)"

text \<open>
  Lines 135 to 154. Only a failed connection is caught and answered with \<^verbatim>\<open>-1\<close>.
  The log line after the loop reads \<^verbatim>\<open>prices[0]\<close>, which raises on an empty
  result.
\<close>

definition get_electricity_prices :: "db_result \<Rightarrow> py_error + fetched" where
  "get_electricity_prices db =
     (case db of
        ConnectFailed \<Rightarrow> Inr Minus_One
      | Rows records \<Rightarrow>
          (case records of
             [] \<Rightarrow> Inl IndexError
           | _ # _ \<Rightarrow> Inr (Prices (map slot_of_record records))))"

section \<open>Configuration, vehicle data and events\<close>

text \<open>
  The module-level settings that \<^verbatim>\<open>main\<close> overwrites from the configuration file.
  \<^verbatim>\<open>inverter_host\<close> records whether a home-battery inverter is configured.
  Floating-point quantities are exact rationals here.
\<close>

record config =
  HOME_LAT :: rat
  HOME_LON :: rat
  KWH_PER_KILOMETER :: rat
  BATTERY_CAPACITY :: int
  CHARGE_RETURNING :: int
  CHARGE_MINIMUM :: int
  CHARGE_CHEAP :: int
  CHARGE_DEFAULT :: int
  CHARGE_VERY_CHEAP :: int
  CHARGE_AMPS_MAX :: int
  inverter_host :: bool

text \<open>
  \<^verbatim>\<open>CHARGE_POWER\<close> is computed once when the module is loaded, from the built-in
  13 A, 3 phases and 0.230 kV; the configuration file does not change it.
\<close>

definition CHARGE_POWER :: rat where
  "CHARGE_POWER = 13 * 3 * (230 / 1000)"

text \<open>
  The vehicle data of one cycle: the fields of \<^verbatim>\<open>cardata\<close> that \<^verbatim>\<open>main\<close> reads,
  and the status \<^verbatim>\<open>get_vehicle_status_from_db\<close> gives.
\<close>

record cardata =
  battery_level :: int
  battery_limit :: int
  charge_port :: string
  charge_rate :: int
  latitude :: rat
  longitude :: rat
  status :: "string option"

text \<open>
  A calendar event as \<^verbatim>\<open>get_calendar_events\<close> returns it: start and end in
  seconds, the distance in metres and the travel time in seconds.
\<close>

record event =
  summary :: string
  start_dateTime :: int
  end_dateTime :: int
  distance :: int
  time :: int

text \<open>
  Everything one pass of the main loop reads from outside: the vehicle, whether the
  calendar is authorised (\<^verbatim>\<open>google is not None\<close>), the result
  \<^verbatim>\<open>(total_distance, events)\<close> of the calendar lookup, the price database and
  the clock.
\<close>

record cycle_input =
  car :: cardata
  google :: bool
  total_distance :: int
  events :: "event list"
  db :: db_result
  now :: int

text \<open>What the loop carries from one pass to the next.\<close>

record loop_state =
  car_away :: bool
  charge_needed :: int

datatype command =
    SetChargeLimit int
  | WakeUp
  | SetInverterMode string
  | StartCharging
  | StopCharging

section \<open>The trip charge planner\<close>

text \<open>
  The sweep of \<^verbatim>\<open>main\<close> once \<^verbatim>\<open>charge_left\<close> is zero (lines 899 to 911): walk the list from its
  first slot, stop at the first slot marked \<^verbatim>\<open>False\<close>, and mark every slot
  without a decision \<^verbatim>\<open>False\<close> on the way.
\<close>

fun mark_full :: "price_slot list \<Rightarrow> price_slot list" where
  "mark_full [] = []"
| "mark_full (p # ps) =
     (if charge p = Some False then p # ps
      else if charge p = None then p\<lparr>charge := Some False\<rparr> # mark_full ps
      else p # mark_full ps)"

text \<open>
  The energy of one event in kWh, and the three numbers \<^verbatim>\<open>main\<close> hands to
  \<^verbatim>\<open>update_charge\<close> for it (lines 870 to 878). Times are whole seconds.
\<close>

definition event_charge :: "config \<Rightarrow> event \<Rightarrow> int" where
  "event_charge cfg ev =
     (let event_charge_needed =
            (4 + rat_of_int (distance ev) / 1000 * KWH_PER_KILOMETER cfg) * 2
      in \<lceil>min event_charge_needed (rat_of_int (BATTERY_CAPACITY cfg))\<rceil>)"

definition event_hours_needed :: "config \<Rightarrow> rat \<Rightarrow> event \<Rightarrow> int" where
  "event_hours_needed cfg charge_left ev =
     \<lceil>max (rat_of_int (event_charge cfg ev) - charge_left) 0 / CHARGE_POWER\<rceil>"

definition event_hours_budget :: "int \<Rightarrow> event \<Rightarrow> int" where
  "event_hours_budget now_s ev =
     (let event_depart = start_dateTime ev - time ev
      in \<lfloor>rat_of_int (event_depart - now_s) / 3600\<rfloor>)"

definition event_hours_duration :: "event \<Rightarrow> int" where
  "event_hours_duration ev =
     (let event_depart = start_dateTime ev - time ev;
          event_home = end_dateTime ev + time ev
      in \<lceil>rat_of_int (event_home - event_depart) / 3600\<rceil>)"

text \<open>
  The body of \<^verbatim>\<open>for event in events\<close> (lines 869 to 911): the state is the slot list and
  \<^verbatim>\<open>charge_left\<close>, the energy in the battery not yet given to an event.
\<close>

definition event_step ::
  "config \<Rightarrow> int \<Rightarrow> price_slot list \<times> rat \<Rightarrow> event \<Rightarrow> price_slot list \<times> rat" where
  "event_step cfg now_s s ev =
     (case s of (prices, charge_left) \<Rightarrow>
        (let prices1 = update_charge prices (event_hours_needed cfg charge_left ev)
                         (event_hours_budget now_s ev) (event_hours_duration ev);
             charge_left1 = max (charge_left - rat_of_int (event_charge cfg ev)) 0
         in (if charge_left1 = 0 then mark_full prices1 else prices1, charge_left1)))"

fun event_loop ::
  "config \<Rightarrow> int \<Rightarrow> price_slot list \<times> rat \<Rightarrow> event list \<Rightarrow> price_slot list \<times> rat" where
  "event_loop cfg now_s s [] = s"
| "event_loop cfg now_s s (ev # evs) = event_loop cfg now_s (event_step cfg now_s s ev) evs"

text \<open>
  The planning part of one pass (lines 851 to 918, the block under
  \<^verbatim>\<open>if google is not None\<close> and its \<^verbatim>\<open>else\<close>): from the carried \<^verbatim>\<open>charge_needed\<close> and the fetched prices to
  the new \<^verbatim>\<open>charge_needed\<close> and the marked prices. \<^verbatim>\<open>len(prices)\<close> raises when the
  prices are the integer \<^verbatim>\<open>-1\<close>; the division by \<^verbatim>\<open>BATTERY_CAPACITY\<close> raises
  when that is zero. The source computes \<^verbatim>\<open>kwh_needed\<close>, \<^verbatim>\<open>charge_needed\<close> and
  \<^verbatim>\<open>charge_left\<close> in floating point; here they are exact rationals, so a value
  that the floats round across an integer before \<^verbatim>\<open>math.ceil\<close> (55.0 / 100 * 100
  is 55.00000000000001 and gives 56) comes out one lower here. With no event the
  value is exactly 0 in both.
\<close>

definition plan :: "config \<Rightarrow> cycle_input \<Rightarrow> int \<Rightarrow> fetched \<Rightarrow> py_error + (int \<times> fetched)" where
  "plan cfg inp charge_needed0 fetched_prices =
     (if google inp then
        (case fetched_prices of
           Minus_One \<Rightarrow> Inl TypeError
         | Prices prices \<Rightarrow>
             (if BATTERY_CAPACITY cfg = 0 then Inl ZeroDivisionError
              else
                (let kwh_needed =
                       (if length (events inp) > 0
                        then (4 * rat_of_int (int (length (events inp)))
                                + rat_of_int (total_distance inp) / 1000 * KWH_PER_KILOMETER cfg) * 2
                             + rat_of_int (CHARGE_RETURNING cfg)
                        else 0);
                     charge_needed1 =
                       \<lceil>max (min (kwh_needed / rat_of_int (BATTERY_CAPACITY cfg) * 100) 100)
                            (rat_of_int (CHARGE_MINIMUM cfg))\<rceil>;
                     charge_left =
                       rat_of_int ((battery_level (car inp) - CHARGE_RETURNING cfg)
                                     * BATTERY_CAPACITY cfg) / 100
                 in Inr (charge_needed1,
                         Prices (fst (event_loop cfg (now inp) (prices, charge_left) (events inp)))))))
      else Inr (charge_needed0, fetched_prices))"

section \<open>The charging policy\<close>

datatype decision =
    NotAtHome
  | CableNotConnected
  | UserOverride
  | ChargeNeeded
  | ChargeMinimum
  | ChargeCheap
  | ChargeVeryCheap
  | NoChargingWindow

text \<open>
  Is the current one-hour slot marked for charging? (The loop with \<^verbatim>\<open>break\<close>,
  lines 921 to 926.)
\<close>

fun charge_slot :: "int \<Rightarrow> price_slot list \<Rightarrow> bool" where
  "charge_slot now_s [] = False"
| "charge_slot now_s (p # ps) =
     (if now_s \<ge> datetime p \<and> now_s < datetime p + 3600 \<and> charge p = Some True then True
      else charge_slot now_s ps)"

text \<open>
  The commands every charging branch sends, in the order of the source: wake the car
  when it is not online, idle the home battery, change the limit when it differs,
  start charging when the car is not charging.
\<close>

definition charge_to :: "config \<Rightarrow> cardata \<Rightarrow> int \<Rightarrow> command list" where
  "charge_to cfg c limit =
     (if status c \<noteq> Some ''online'' then [WakeUp] else [])
     @ (if inverter_host cfg then [SetInverterMode ''idle''] else [])
     @ (if battery_limit c \<noteq> limit then [SetChargeLimit limit] else [])
     @ (if charge_rate c = 0 then [StartCharging] else [])"

definition stop_charging :: "config \<Rightarrow> cardata \<Rightarrow> command list" where
  "stop_charging cfg c =
     (if charge_rate c > 0 then [StopCharging] else [])
     @ (if inverter_host cfg then [SetInverterMode ''active''] else [])"

text \<open>
  The \<^verbatim>\<open>if\<close>/\<open>elif\<close> chain at the end of the pass (lines 927 to 1033). The
  minimum, cheap and very-cheap branches compute a duration for the log by dividing
  by \<^verbatim>\<open>CHARGE_AMPS_MAX * 3 * .230\<close>, which raises when that is zero; the tests of
  the cheap branches read \<^verbatim>\<open>prices[0]\<close>, which raises on an empty list. The
  result is the branch taken and the commands it sends to the car and the inverter;
  sending them is the adapters' work.
\<close>

definition policy ::
  "config \<Rightarrow> cardata \<Rightarrow> int \<Rightarrow> int \<Rightarrow> price_slot list \<Rightarrow> py_error + (decision \<times> command list)" where
  "policy cfg c charge_needed1 now_s prices =
     (if battery_level c < charge_needed1 \<and> charge_slot now_s prices then
        Inr (ChargeNeeded, charge_to cfg c charge_needed1)
      else if battery_level c < CHARGE_MINIMUM cfg then
        (if CHARGE_AMPS_MAX cfg = 0 then Inl ZeroDivisionError
         else Inr (ChargeMinimum, charge_to cfg c (CHARGE_MINIMUM cfg)))
      else
        (case prices of
           [] \<Rightarrow> Inl IndexError
         | p0 # _ \<Rightarrow>
             (if level p0 = ''CHEAP'' \<and> battery_level c < CHARGE_CHEAP cfg then
                (if CHARGE_AMPS_MAX cfg = 0 then Inl ZeroDivisionError
                 else Inr (ChargeCheap, charge_to cfg c (CHARGE_CHEAP cfg)))
              else if level p0 = ''VERY_CHEAP'' \<and> battery_level c < CHARGE_VERY_CHEAP cfg then
                (if CHARGE_AMPS_MAX cfg = 0 then Inl ZeroDivisionError
                 else Inr (ChargeVeryCheap, charge_to cfg c (CHARGE_VERY_CHEAP cfg)))
              else Inr (NoChargingWindow, stop_charging cfg c))))"

section \<open>One pass of the main loop\<close>

text \<open>
  The body of \<^verbatim>\<open>while True\<close> from the position test on (lines 806 to 1033). The
  position test compares exact rationals where the source subtracts floats, so a
  car exactly 0.001 degrees from home can fall on the other side of the test. The
  limit tested for a user override is the one read at the start of the pass. A
  \<^verbatim>\<open>continue\<close> ends the
  pass with the commands sent so far; an exception leaves the loop, and after the
  \<^verbatim>\<open>finally\<close> block the process ends with it (only \<^verbatim>\<open>KeyboardInterrupt\<close> is
  caught).
\<close>

definition cycle ::
  "config \<Rightarrow> loop_state \<Rightarrow> cycle_input \<Rightarrow> py_error + (decision \<times> command list \<times> loop_state)" where
  "cycle cfg st inp =
     (let c = car inp; current_limit = battery_limit c in
      if \<bar>latitude c - HOME_LAT cfg\<bar> > 1 / 1000 \<or> \<bar>longitude c - HOME_LON cfg\<bar> > 1 / 1000 then
        (if \<not> car_away st
         then Inr (NotAtHome, [SetChargeLimit (CHARGE_DEFAULT cfg)], st\<lparr>car_away := True\<rparr>)
         else Inr (NotAtHome, [], st))
      else
        (let cmds0 = (if car_away st then [SetChargeLimit (CHARGE_DEFAULT cfg)] else []);
             st0 = (if car_away st then st\<lparr>car_away := False\<rparr> else st)
         in
         if charge_port c \<noteq> ''Engaged'' then Inr (CableNotConnected, cmds0, st0)
         else if current_limit \<noteq> CHARGE_DEFAULT cfg \<and> current_limit \<noteq> CHARGE_CHEAP cfg
                 \<and> current_limit \<noteq> CHARGE_VERY_CHEAP cfg \<and> current_limit \<noteq> charge_needed st0
         then Inr (UserOverride, cmds0, st0)
         else
           (case get_electricity_prices (db inp) of
              Inl e \<Rightarrow> Inl e
            | Inr fetched_prices \<Rightarrow>
                (case plan cfg inp (charge_needed st0) fetched_prices of
                   Inl e \<Rightarrow> Inl e
                 | Inr (charge_needed1, marked) \<Rightarrow>
                     (case marked of
                        Minus_One \<Rightarrow> Inl TypeError
                      | Prices prices \<Rightarrow>
                          (case policy cfg c charge_needed1 (now inp) prices of
                             Inl e \<Rightarrow> Inl e
                           | Inr (d, cmds) \<Rightarrow>
                               Inr (d, cmds0 @ cmds, st0\<lparr>charge_needed := charge_needed1\<rparr>)))))))"

section \<open>Example data\<close>

text \<open>
  Database rows for consecutive hours from \<open>t0\<close> on, one per
  \<open>(level, price)\<close> pair.
\<close>

definition hourly_rows :: "int \<Rightarrow> (string \<times> rat) list \<Rightarrow> (int \<times> string \<times> rat) list" where
  "hourly_rows t0 lps = map (\<lambda>(i, lp). (t0 + 3600 * int i, fst lp, snd lp)) (enumerate 0 lps)"

text \<open>Six hours of prices, none decided.\<close>

definition six_hours :: "price_slot list" where
  "six_hours = map slot_of_record (hourly_rows 0
     [(''NORMAL'', 1 / 10), (''CHEAP'', 1 / 20), (''EXPENSIVE'', 3 / 10),
      (''NORMAL'', 2 / 25), (''NORMAL'', 1 / 5), (''NORMAL'', 1 / 5)])"

text \<open>
  The 24 hourly slots of the scenario: the prices of hours 0 to 3 are given, the
  other twenty hours cost 0.20.
\<close>

definition scenario_24 :: "price_slot list" where
  "scenario_24 = map slot_of_record (hourly_rows 0
     ([(''NORMAL'', 1 / 10), (''NORMAL'', 1 / 20), (''NORMAL'', 3 / 10), (''NORMAL'', 2 / 25)]
      @ replicate 20 (''NORMAL'', 1 / 5)))"


text \<open>The built-in settings of the module, with no inverter configured.\<close>

definition default_config :: config where
  "default_config =
     \<lparr>HOME_LAT = 51387 / 1000, HOME_LON = 5578 / 1000, KWH_PER_KILOMETER = 250 / 1000,
      BATTERY_CAPACITY = 100, CHARGE_RETURNING = 10, CHARGE_MINIMUM = 32, CHARGE_CHEAP = 49,
      CHARGE_DEFAULT = 50, CHARGE_VERY_CHEAP = 98, CHARGE_AMPS_MAX = 13,
      inverter_host = False\<rparr>"

text \<open>
  A configuration file that raises the minimum to 55 percent and the cheap level
  to 60 percent, so that every limit the program sets is one the car accepts (the
  source notes that a limit below 50 percent cannot be set).
\<close>

definition raised_minimum :: config where
  "raised_minimum = default_config\<lparr>CHARGE_MINIMUM := 55, CHARGE_CHEAP := 60\<rparr>"

text \<open>
  The loop state before the first pass: \<^verbatim>\<open>car_away = False\<close> and
  \<^verbatim>\<open>charge_needed = CHARGE_MINIMUM\<close>.
\<close>

definition initial_state :: "config \<Rightarrow> loop_state" where
  "initial_state cfg = \<lparr>car_away = False, charge_needed = CHARGE_MINIMUM cfg\<rparr>"

text \<open>A car parked at home, plugged in, not charging, at the given level and limit.\<close>

definition parked_car :: "int \<Rightarrow> int \<Rightarrow> cardata" where
  "parked_car lvl limit_pct =
     \<lparr>battery_level = lvl, battery_limit = limit_pct, charge_port = ''Engaged'', charge_rate = 0,
      latitude = 51387 / 1000, longitude = 5578 / 1000, status = Some ''online''\<rparr>"

text \<open>
  A trip of 85 km and one hour of driving each way, to an appointment from the
  given hour to two hours later.
\<close>

definition trip_at :: "int \<Rightarrow> event" where
  "trip_at h =
     \<lparr>summary = ''Appointment'', start_dateTime = h * 3600, end_dateTime = (h + 2) * 3600,
      distance = 85000, time = 3600\<rparr>"

text \<open>
  A trip of 85 km and half an hour of driving each way, to an appointment at hour 3
  that takes no time.
\<close>

definition short_trip :: event where
  "short_trip =
     \<lparr>summary = ''Errand'', start_dateTime = 3 * 3600, end_dateTime = 3 * 3600,
      distance = 85000, time = 1800\<rparr>"

text \<open>Six hours of prices whose first hour is the most expensive one.\<close>

definition expensive_first :: "(int \<times> string \<times> rat) list" where
  "expensive_first = hourly_rows 0
     [(''EXPENSIVE'', 3 / 10), (''CHEAP'', 1 / 20), (''NORMAL'', 1 / 10),
      (''NORMAL'', 2 / 25), (''NORMAL'', 1 / 5), (''NORMAL'', 1 / 5)]"

text \<open>
  A first pass at hour 0 with the battery at 20 percent, the limit at the default
  and one trip leaving at hour 9; and the next pass, where the car reports the
  limit 55 and the level 21.
\<close>

definition first_pass :: cycle_input where
  "first_pass =
     \<lparr>car = parked_car 20 50, google = True, total_distance = 85000, events = [trip_at 10],
      db = Rows expensive_first, now = 0\<rparr>"

definition second_pass :: cycle_input where
  "second_pass =
     \<lparr>car = parked_car 21 55, google = True, total_distance = 85000, events = [trip_at 10],
      db = Rows expensive_first, now = 600\<rparr>"

text \<open>A pass in which the price database cannot be reached.\<close>

definition no_database :: "bool \<Rightarrow> cycle_input" where
  "no_database g =
     \<lparr>car = parked_car 20 50, google = g, total_distance = 0, events = [],
      db = ConnectFailed, now = 0\<rparr>"

text \<open>A pass with calendar access and no event found.\<close>

definition no_events :: cycle_input where
  "no_events =
     \<lparr>car = parked_car 60 50, google = True, total_distance = 0, events = [],
      db = Rows expensive_first, now = 0\<rparr>"

text \<open>The six hours after one trip has been planned into them.\<close>

definition one_trip_planned :: "price_slot list" where
  "one_trip_planned = update_charge six_hours 5 2 1"

text \<open>The slots of the first pass once its trip has been planned.\<close>

definition first_pass_marked :: "price_slot list" where
  "first_pass_marked =
     [\<lparr>datetime = 0, level = ''EXPENSIVE'', price = 3 / 10, charge = Some False\<rparr>,
      \<lparr>datetime = 3600, level = ''CHEAP'', price = 1 / 20, charge = Some True\<rparr>,
      \<lparr>datetime = 7200, level = ''NORMAL'', price = 1 / 10, charge = Some True\<rparr>,
      \<lparr>datetime = 10800, level = ''NORMAL'', price = 2 / 25, charge = Some True\<rparr>,
      \<lparr>datetime = 14400, level = ''NORMAL'', price = 1 / 5, charge = Some True\<rparr>,
      \<lparr>datetime = 18000, level = ''NORMAL'', price = 1 / 5, charge = Some True\<rparr>]"

section \<open>Properties of the slot scheduler\<close>

lemma mark_charging_eq:
  "mark_charging p sel =
     (if datetime p \<in> datetime ` set sel then p\<lparr>charge := Some True\<rparr> else p)"
  by (induction sel arbitrary: p) auto

lemma mark_not_charging_eq:
  "mark_not_charging p sel =
     (if datetime p \<in> datetime ` set sel \<and> charge p \<noteq> Some True
      then p\<lparr>charge := Some False\<rparr> else p)"
  by (induction sel arbitrary: p) auto

lemma py_clip_min:
  assumes "0 \<le> k"
  shows "py_clip n (min (int n) k) = min n (nat k)"
proof -
  have "\<not> min (int n) k < 0" using assms by simp
  then have "py_clip n (min (int n) k) = min n (nat (min (int n) k))"
    by (simp only: py_clip_def if_False)
  also have "\<dots> = min n (nat k)" using assms by arith
  finally show ?thesis .
qed

lemma py_slice_prefix:
  assumes "0 \<le> k"
  shows "py_slice xs 0 (min (int (length xs)) k) = take (nat k) xs"
proof -
  have "py_clip (length xs) 0 = 0"
    by (simp add: py_clip_def)
  moreover have "take (min (length xs) (nat k)) xs = take (nat k) xs"
    by (simp add: min_def)
  ultimately show ?thesis
    using py_clip_min [OF assms, of "length xs"] by (simp add: py_slice_def)
qed

lemma set_py_slice: "set (py_slice xs a b) \<subseteq> set xs"
  unfolding py_slice_def Let_def
  by (meson set_take_subset set_drop_subset subset_trans)

lemma distinct_py_slice: "distinct xs \<Longrightarrow> distinct (py_slice xs a b)"
  by (simp add: py_slice_def Let_def)

lemma set_cutprices: "set (cutprices ps hb) \<subseteq> {p \<in> set ps. charge p = None}"
  using set_py_slice [of "sort_key datetime (filter (\<lambda>i. charge i = None) ps)"]
  by (auto simp: cutprices_def Let_def)

lemma set_cutorderedcutprices:
  "set (cutorderedcutprices ps hn hb) \<subseteq> {p \<in> set ps. charge p = None}"
  using set_py_slice [of "sort_key (\<lambda>d. (price d, datetime d)) (cutprices ps hb)"]
    set_cutprices [of ps hb]
  by (auto simp: cutorderedcutprices_def Let_def)

lemma distinct_cutorderedcutprices:
  "distinct ps \<Longrightarrow> distinct (cutorderedcutprices ps hn hb)"
  by (simp add: cutorderedcutprices_def cutprices_def Let_def distinct_py_slice)

lemma length_cutprices:
  "0 \<le> hb \<Longrightarrow>
   length (cutprices ps hb) = min (length (filter (\<lambda>p. charge p = None) ps)) (nat hb)"
  by (simp add: cutprices_def Let_def py_slice_prefix)

lemma length_cutorderedcutprices:
  "0 \<le> hn \<Longrightarrow>
   length (cutorderedcutprices ps hn hb) = min (length (cutprices ps hb)) (nat hn)"
  by (simp add: cutorderedcutprices_def Let_def py_slice_prefix)

lemma charge_update_charge_slot:
  "charge (mark_not_charging (mark_charging p sel) away) = Some True \<longleftrightarrow>
     charge p = Some True \<or> datetime p \<in> datetime ` set sel"
  by (simp add: mark_charging_eq mark_not_charging_eq)

lemma length_filter_zip_map:
  "length (filter (\<lambda>(b, a). Q b a) (zip xs (map f xs))) = length (filter (\<lambda>b. Q b (f b)) xs)"
  by (induction xs) auto

lemma update_charge_map:
  "update_charge ps hn hb hdur =
     map (\<lambda>p. mark_not_charging
                 (mark_charging p (cutorderedcutprices ps hn (max 1 hb)))
                 (cutprices_away (reserve_pass ps hn (max 1 hb)) (max 1 hb) hdur)) ps"
  by (simp add: update_charge_def block_pass_def reserve_pass_def Let_def)

lemma newly_reserved_filter:
  "newly_reserved ps (update_charge ps hn hb hdur) =
     length (filter (\<lambda>p. charge p \<noteq> Some True \<and>
        datetime p \<in> datetime ` set (cutorderedcutprices ps hn (max 1 hb))) ps)"
  unfolding newly_reserved_def update_charge_map length_filter_zip_map
    charge_update_charge_slot
  by (rule arg_cong [where f = length], rule filter_cong) auto

lemma newly_reserved_selected:
  assumes "distinct (map datetime ps)"
  shows "newly_reserved ps (update_charge ps hn hb hdur) =
           length (cutorderedcutprices ps hn (max 1 hb))"
proof -
  let ?sel = "cutorderedcutprices ps hn (max 1 hb)"
  have inj: "inj_on datetime (set ps)" and d: "distinct ps"
    using assms by (auto simp: distinct_map)
  have sub: "set ?sel \<subseteq> {p \<in> set ps. charge p = None}"
    by (rule set_cutorderedcutprices)
  have "filter (\<lambda>p. charge p \<noteq> Some True \<and> datetime p \<in> datetime ` set ?sel) ps
          = filter (\<lambda>p. p \<in> set ?sel) ps"
  proof (rule filter_cong [OF refl])
    fix p assume p: "p \<in> set ps"
    show "(charge p \<noteq> Some True \<and> datetime p \<in> datetime ` set ?sel) = (p \<in> set ?sel)"
    proof
      assume "charge p \<noteq> Some True \<and> datetime p \<in> datetime ` set ?sel"
      then obtain q where q: "q \<in> set ?sel" "datetime p = datetime q" by auto
      with sub have "q \<in> set ps" by auto
      with inj p q show "p \<in> set ?sel" by (auto dest: inj_onD)
    next
      assume "p \<in> set ?sel"
      with sub show "charge p \<noteq> Some True \<and> datetime p \<in> datetime ` set ?sel" by auto
    qed
  qed
  moreover have "length (filter (\<lambda>p. p \<in> set ?sel) ps) = card (set ?sel)"
  proof -
    have "{x. x \<in> set ?sel} \<inter> set ps = set ?sel" using sub by auto
    with d show ?thesis by (simp add: distinct_length_filter)
  qed
  moreover have "card (set ?sel) = length ?sel"
    using d by (simp add: distinct_card distinct_cutorderedcutprices)
  ultimately show ?thesis by (simp add: newly_reserved_filter)
qed

lemma sorted_filter_datetime:
  "sorted (map datetime ps) \<Longrightarrow> sort_key datetime (filter P ps) = filter P ps"
  by (rule sort_key_id_if_sorted) (simp add: sorted_filter)

lemma six_hours_eq:
  "six_hours =
     [\<lparr>datetime = 0, level = ''NORMAL'', price = 1 / 10, charge = None\<rparr>,
      \<lparr>datetime = 3600, level = ''CHEAP'', price = 1 / 20, charge = None\<rparr>,
      \<lparr>datetime = 7200, level = ''EXPENSIVE'', price = 3 / 10, charge = None\<rparr>,
      \<lparr>datetime = 10800, level = ''NORMAL'', price = 2 / 25, charge = None\<rparr>,
      \<lparr>datetime = 14400, level = ''NORMAL'', price = 1 / 5, charge = None\<rparr>,
      \<lparr>datetime = 18000, level = ''NORMAL'', price = 1 / 5, charge = None\<rparr>]"
  by (simp add: six_hours_def hourly_rows_def slot_of_record_def enumerate_eq_zip upt_rec)

text \<open>
  Claim C1. On a slot list with unique, ascending start times, and for a non-negative
  number of hours needed, one call of \<^verbatim>\<open>update_charge\<close> newly marks exactly
  \<open>min(hours_needed, max(1, hours_budget), number of undecided slots)\<close> slots for
  charging. That is \<open>min(hours_needed, size of the deadline window)\<close>, where the
  deadline window is the first \<open>max(1, hours_budget)\<close> undecided slots of the list.
\<close>

theorem update_charge_reserved_count:
  assumes "sorted_wrt (<) (map datetime prices)" and "0 \<le> hours_needed"
  shows "newly_reserved prices (update_charge prices hours_needed hours_budget hours_duration)
           = nat (min hours_needed (min (max 1 hours_budget)
                   (int (length (filter (\<lambda>p. charge p = None) prices)))))
       \<and> newly_reserved prices (update_charge prices hours_needed hours_budget hours_duration)
           = nat (min hours_needed (int (length (cutprices prices (max 1 hours_budget)))))
       \<and> cutprices prices (max 1 hours_budget)
           = take (nat (max 1 hours_budget)) (filter (\<lambda>p. charge p = None) prices)"
proof -
  have d: "distinct (map datetime prices)" and s: "sorted (map datetime prices)"
    using assms(1) by (simp_all add: strict_sorted_iff)
  have n: "newly_reserved prices (update_charge prices hours_needed hours_budget hours_duration)
             = min (length (cutprices prices (max 1 hours_budget))) (nat hours_needed)"
    using newly_reserved_selected [OF d] assms(2)
    by (simp add: length_cutorderedcutprices)
  have l: "length (cutprices prices (max 1 hours_budget))
             = min (length (filter (\<lambda>p. charge p = None) prices)) (nat (max 1 hours_budget))"
    by (simp add: length_cutprices)
  have w: "cutprices prices (max 1 hours_budget)
             = take (nat (max 1 hours_budget)) (filter (\<lambda>p. charge p = None) prices)"
    using s by (simp add: cutprices_def Let_def py_slice_prefix sorted_filter_datetime)
  have a: "min (min (length (filter (\<lambda>p. charge p = None) prices)) (nat (max 1 hours_budget)))
             (nat hours_needed)
          = nat (min hours_needed (min (max 1 hours_budget)
              (int (length (filter (\<lambda>p. charge p = None) prices)))))"
    using assms(2) by arith
  have b: "min (length (cutprices prices (max 1 hours_budget))) (nat hours_needed)
          = nat (min hours_needed (int (length (cutprices prices (max 1 hours_budget)))))"
    using assms(2) by arith
  from n l a have "newly_reserved prices (update_charge prices hours_needed hours_budget hours_duration)
           = nat (min hours_needed (min (max 1 hours_budget)
                   (int (length (filter (\<lambda>p. charge p = None) prices)))))"
    by (simp only:)
  moreover from n b have "newly_reserved prices (update_charge prices hours_needed hours_budget hours_duration)
           = nat (min hours_needed (int (length (cutprices prices (max 1 hours_budget)))))"
    by (simp only:)
  ultimately show ?thesis
    using w by blast
qed

theorem update_charge_reserved_count_witness:
  "sorted_wrt (<) (map datetime six_hours) \<and> (0::int) \<le> 2
   \<and> newly_reserved six_hours (update_charge six_hours 2 3 1) = 2
   \<and> length (cutprices six_hours (max 1 3)) = 3"
proof -
  have h1: "sorted_wrt (<) (map datetime six_hours)"
    by (simp add: six_hours_eq)
  have h2: "(0::int) \<le> 2" by simp
  have l: "length (filter (\<lambda>p. charge p = None) six_hours) = 6"
    by (simp add: six_hours_eq)
  from update_charge_reserved_count [OF h1 h2, of 3 1] l h1 show ?thesis
    by simp
qed

subsection \<open>What a call leaves alone\<close>

lemma update_charge_length: "length (update_charge ps hn hb hdur) = length ps"
  by (simp add: update_charge_map)

lemma mark_slot_fields:
  "mark_not_charging (mark_charging p sel) away =
     p\<lparr>charge := charge (mark_not_charging (mark_charging p sel) away)\<rparr>"
  by (simp add: mark_charging_eq mark_not_charging_eq)

lemma update_charge_datetime: "map datetime (update_charge ps hn hb hdur) = map datetime ps"
  by (simp add: update_charge_map mark_charging_eq mark_not_charging_eq)

lemma update_charge_level: "map level (update_charge ps hn hb hdur) = map level ps"
  by (simp add: update_charge_map mark_charging_eq mark_not_charging_eq)

lemma update_charge_price: "map price (update_charge ps hn hb hdur) = map price ps"
  by (simp add: update_charge_map mark_charging_eq mark_not_charging_eq)

lemma map2_map_self: "map2 f xs (map g xs) = map (\<lambda>x. f x (g x)) xs"
  by (induction xs) auto

lemma update_charge_only_charge:
  "update_charge ps hn hb hdur =
     map2 (\<lambda>p c. p\<lparr>charge := c\<rparr>) ps (map charge (update_charge ps hn hb hdur))"
proof -
  let ?f = "\<lambda>p. mark_not_charging
                 (mark_charging p (cutorderedcutprices ps hn (max 1 hb)))
                 (cutprices_away (reserve_pass ps hn (max 1 hb)) (max 1 hb) hdur)"
  have "map2 (\<lambda>p c. p\<lparr>charge := c\<rparr>) ps (map charge (map ?f ps))
          = map (\<lambda>p. p\<lparr>charge := charge (?f p)\<rparr>) ps"
    by (simp only: map_map map2_map_self o_apply)
  also have "\<dots> = map ?f ps"
    by (rule map_cong [OF refl]) (rule mark_slot_fields [symmetric])
  finally show ?thesis
    by (simp only: update_charge_map [symmetric])
qed

text \<open>
  Claim C9. For every input, \<^verbatim>\<open>update_charge\<close> returns the slots it was given, in
  the same order and number: start time, level and price of every slot are as
  before, and each returned slot is the input slot with at most its \<^verbatim>\<open>charge\<close>
  rewritten.
\<close>

theorem update_charge_frame:
  "length (update_charge prices hours_needed hours_budget hours_duration) = length prices
   \<and> map datetime (update_charge prices hours_needed hours_budget hours_duration) = map datetime prices
   \<and> map level (update_charge prices hours_needed hours_budget hours_duration) = map level prices
   \<and> map price (update_charge prices hours_needed hours_budget hours_duration) = map price prices
   \<and> update_charge prices hours_needed hours_budget hours_duration =
       map2 (\<lambda>p c. p\<lparr>charge := c\<rparr>) prices
         (map charge (update_charge prices hours_needed hours_budget hours_duration))"
  using update_charge_length update_charge_datetime update_charge_level update_charge_price
    update_charge_only_charge by blast

subsection \<open>Decided slots stay decided\<close>

lemma one_trip_planned_eq:
  "one_trip_planned =
     [\<lparr>datetime = 0, level = ''NORMAL'', price = 1 / 10, charge = Some True\<rparr>,
      \<lparr>datetime = 3600, level = ''CHEAP'', price = 1 / 20, charge = Some True\<rparr>,
      \<lparr>datetime = 7200, level = ''EXPENSIVE'', price = 3 / 10, charge = None\<rparr>,
      \<lparr>datetime = 10800, level = ''NORMAL'', price = 2 / 25, charge = Some False\<rparr>,
      \<lparr>datetime = 14400, level = ''NORMAL'', price = 1 / 5, charge = None\<rparr>,
      \<lparr>datetime = 18000, level = ''NORMAL'', price = 1 / 5, charge = None\<rparr>]"
  by code_simp















subsection \<open>The away window never takes a slot marked for charging\<close>

lemma block_pass_keeps:
  "i < length ps \<Longrightarrow> charge (ps ! i) = Some True \<Longrightarrow> block_pass ps hb hdur ! i = ps ! i"
  by (simp add: block_pass_def mark_not_charging_eq)

text \<open>
  Claim C8. The second pass of \<^verbatim>\<open>update_charge\<close>, which marks the away window,
  leaves every slot that is marked for charging exactly as it is, whether the mark
  is older or was set by the first pass of the same call; every slot the first pass
  picked is marked for charging when the call returns; and no position is marked
  both for charging and not fit for charging.
\<close>

theorem block_pass_never_overwrites_reserved:
  assumes "i < length prices"
  shows "(charge (prices ! i) = Some True \<longrightarrow> block_pass prices hb hdur ! i = prices ! i)
    \<and> (charge (reserve_pass prices hn (max 1 hb) ! i) = Some True \<longrightarrow>
         update_charge prices hn hb hdur ! i = reserve_pass prices hn (max 1 hb) ! i)
    \<and> (prices ! i \<in> set (cutorderedcutprices prices hn (max 1 hb)) \<longrightarrow>
         charge (update_charge prices hn hb hdur ! i) = Some True)
    \<and> {j. j < length prices \<and> charge (update_charge prices hn hb hdur ! j) = Some True}
        \<inter> {j. j < length prices \<and> charge (update_charge prices hn hb hdur ! j) = Some False} = {}"
proof -
  have l: "i < length (reserve_pass prices hn (max 1 hb))"
    using assms by (simp add: reserve_pass_def)
  have "charge (reserve_pass prices hn (max 1 hb) ! i) = Some True \<longrightarrow>
         update_charge prices hn hb hdur ! i = reserve_pass prices hn (max 1 hb) ! i"
    using block_pass_keeps [OF l] by (simp add: update_charge_def Let_def)
  moreover have "prices ! i \<in> set (cutorderedcutprices prices hn (max 1 hb)) \<longrightarrow>
         charge (update_charge prices hn hb hdur ! i) = Some True"
    using assms by (simp add: update_charge_map charge_update_charge_slot)
  ultimately show ?thesis
    using block_pass_keeps [OF assms] by auto
qed

theorem block_pass_never_overwrites_reserved_witness:
  "2 < length one_trip_planned
   \<and> charge (reserve_pass one_trip_planned 1 (max 1 1) ! 2) = Some True
   \<and> update_charge one_trip_planned 1 1 3 ! 2 = reserve_pass one_trip_planned 1 (max 1 1) ! 2
   \<and> map charge (update_charge one_trip_planned 1 1 3)
       = [Some True, Some True, Some True, Some False, Some False, None]"
proof -
  have l: "2 < length one_trip_planned"
    by (simp add: one_trip_planned_eq)
  have r: "charge (reserve_pass one_trip_planned 1 (max 1 1) ! 2) = Some True"
    by code_simp
  have m: "map charge (update_charge one_trip_planned 1 1 3)
       = [Some True, Some True, Some True, Some False, Some False, None]"
    by code_simp
  show ?thesis
    using block_pass_never_overwrites_reserved [OF l, of 1 3 1] l r m
    by blast
qed

subsection \<open>The scenario of 24 hourly slots\<close>

lemma length_20_cases:
  assumes "length (rest :: 'a list) = 20"
  obtains a0 a1 a2 a3 a4 a5 a6 a7 a8 a9 b0 b1 b2 b3 b4 b5 b6 b7 b8 b9
  where "rest = [a0,a1,a2,a3,a4,a5,a6,a7,a8,a9,b0,b1,b2,b3,b4,b5,b6,b7,b8,b9]"
proof -
  from assms have "length rest = Suc (Suc (Suc (Suc (Suc (Suc (Suc (Suc (Suc (Suc (Suc (Suc (Suc (Suc (Suc (Suc (Suc (Suc (Suc (Suc 0)))))))))))))))))))"
    by simp
  then show ?thesis using that
    by (auto simp: length_Suc_conv)
qed

lemma cutprices_away_sorted:
  "sorted (map datetime ps) \<Longrightarrow>
   cutprices_away ps hb hdur =
     py_slice ps (min (int (length ps)) (hb + 1)) (min (int (length ps)) (hb + hdur + 1))"
  by (simp add: cutprices_away_def sort_key_id_if_sorted)

lemma cutprices_sorted:
  "sorted (map datetime ps) \<Longrightarrow> 0 \<le> hb \<Longrightarrow>
   cutprices ps hb = take (nat hb) (filter (\<lambda>p. charge p = None) ps)"
  by (simp add: cutprices_def Let_def py_slice_prefix sorted_filter_datetime)

text \<open>
  Claim C6, as amended. On 24 hourly undecided slots whose first four prices are
  0.10, 0.05, 0.30 and 0.08, whatever the other twenty, the call with 2 hours
  needed, a budget of 3 hours and 5 hours away marks hours 0 and 1 for charging
  (the two cheapest of the window, hours 0 to 2), marks hours 4 to 8 not fit for
  charging, and leaves hours 2 and 3 and hours 9 to 23 undecided.
\<close>

theorem scenario_update_charge:
  assumes "length rest = 20"
  shows "map charge (update_charge (map slot_of_record (hourly_rows t0
           ([(l0, 1 / 10), (l1, 1 / 20), (l2, 3 / 10), (l3, 2 / 25)] @ rest))) 2 3 5)
       = [Some True, Some True, None, None]
         @ [Some False, Some False, Some False, Some False, Some False]
         @ replicate 15 None"
proof -
  from assms obtain a0 a1 a2 a3 a4 a5 a6 a7 a8 a9 b0 b1 b2 b3 b4 b5 b6 b7 b8 b9
    where r: "rest = [a0,a1,a2,a3,a4,a5,a6,a7,a8,a9,b0,b1,b2,b3,b4,b5,b6,b7,b8,b9]"
    by (rule length_20_cases)
  define s :: "int \<Rightarrow> string \<times> rat \<Rightarrow> price_slot"
    where "s = (\<lambda>k lp. \<lparr>datetime = t0 + 3600 * k, level = fst lp, price = snd lp, charge = None\<rparr>)"
  have s_simps [simp]: "datetime (s k lp) = t0 + 3600 * k" "charge (s k lp) = None"
    "price (s k lp) = snd lp" for k lp
    by (simp_all add: s_def)
  define ps where "ps = map slot_of_record (hourly_rows t0
           ([(l0, 1 / 10), (l1, 1 / 20), (l2, 3 / 10), (l3, 2 / 25)] @ rest))"
  define ps1 where "ps1 = [(s 0 (l0, 1 / 10))\<lparr>charge := Some True\<rparr>,
        (s 1 (l1, 1 / 20))\<lparr>charge := Some True\<rparr>,
        s 2 (l2, 3 / 10), s 3 (l3, 2 / 25), s 4 a0, s 5 a1, s 6 a2, s 7 a3,
        s 8 a4, s 9 a5, s 10 a6, s 11 a7, s 12 a8, s 13 a9, s 14 b0, s 15 b1,
        s 16 b2, s 17 b3, s 18 b4, s 19 b5, s 20 b6, s 21 b7, s 22 b8, s 23 b9]"
  have e: "ps = [s 0 (l0, 1 / 10), s 1 (l1, 1 / 20), s 2 (l2, 3 / 10), s 3 (l3, 2 / 25),
        s 4 a0, s 5 a1, s 6 a2, s 7 a3, s 8 a4, s 9 a5, s 10 a6, s 11 a7,
        s 12 a8, s 13 a9, s 14 b0, s 15 b1, s 16 b2, s 17 b3, s 18 b4, s 19 b5,
        s 20 b6, s 21 b7, s 22 b8, s 23 b9]"
    unfolding ps_def r
    by (simp add: hourly_rows_def slot_of_record_def enumerate_eq_zip upt_rec s_def split_beta)
  have srt: "sorted (map datetime ps)"
    unfolding e by simp
  have und: "filter (\<lambda>p. charge p = None) ps = ps"
    unfolding e by simp
  have "cutprices ps 3 = take 3 ps"
    using cutprices_sorted [OF srt, of 3] und by simp
  then have cp: "cutprices ps 3 = [s 0 (l0, 1 / 10), s 1 (l1, 1 / 20), s 2 (l2, 3 / 10)]"
    unfolding e by simp
  have sel: "cutorderedcutprices ps 2 3 = [s 1 (l1, 1 / 20), s 0 (l0, 1 / 10)]"
    unfolding cutorderedcutprices_def cp
    by (simp add: py_slice_def py_clip_def)
  have "reserve_pass ps 2 3 = map (\<lambda>p. mark_charging p [s 1 (l1, 1 / 20), s 0 (l0, 1 / 10)]) ps"
    by (simp add: reserve_pass_def sel)
  also have "\<dots> = ps1"
    unfolding e ps1_def by simp
  finally have rp: "reserve_pass ps 2 3 = ps1" .
  have srt1: "sorted (map datetime ps1)"
    unfolding ps1_def by simp
  have len1: "length ps1 = 24"
    unfolding ps1_def by simp
  have "cutprices_away ps1 3 5 = take 5 (drop 4 ps1)"
    using cutprices_away_sorted [OF srt1, of 3 5]
    by (simp add: len1 py_slice_def py_clip_def)
  then have aw: "cutprices_away ps1 3 5 = [s 4 a0, s 5 a1, s 6 a2, s 7 a3, s 8 a4]"
    unfolding ps1_def by simp
  have "block_pass ps1 3 5 = map (\<lambda>p. mark_not_charging p [s 4 a0, s 5 a1, s 6 a2, s 7 a3, s 8 a4]) ps1"
    by (simp add: block_pass_def aw)
  also have "\<dots> = [(s 0 (l0, 1 / 10))\<lparr>charge := Some True\<rparr>,
        (s 1 (l1, 1 / 20))\<lparr>charge := Some True\<rparr>,
        s 2 (l2, 3 / 10), s 3 (l3, 2 / 25),
        (s 4 a0)\<lparr>charge := Some False\<rparr>,
        (s 5 a1)\<lparr>charge := Some False\<rparr>,
        (s 6 a2)\<lparr>charge := Some False\<rparr>,
        (s 7 a3)\<lparr>charge := Some False\<rparr>,
        (s 8 a4)\<lparr>charge := Some False\<rparr>, s 9 a5, s 10 a6, s 11 a7,
        s 12 a8, s 13 a9, s 14 b0, s 15 b1, s 16 b2, s 17 b3, s 18 b4, s 19 b5,
        s 20 b6, s 21 b7, s 22 b8, s 23 b9]"
    unfolding ps1_def by simp
  finally have bp: "block_pass ps1 3 5 = [(s 0 (l0, 1 / 10))\<lparr>charge := Some True\<rparr>,
        (s 1 (l1, 1 / 20))\<lparr>charge := Some True\<rparr>,
        s 2 (l2, 3 / 10), s 3 (l3, 2 / 25),
        (s 4 a0)\<lparr>charge := Some False\<rparr>,
        (s 5 a1)\<lparr>charge := Some False\<rparr>,
        (s 6 a2)\<lparr>charge := Some False\<rparr>,
        (s 7 a3)\<lparr>charge := Some False\<rparr>,
        (s 8 a4)\<lparr>charge := Some False\<rparr>, s 9 a5, s 10 a6, s 11 a7,
        s 12 a8, s 13 a9, s 14 b0, s 15 b1, s 16 b2, s 17 b3, s 18 b4, s 19 b5,
        s 20 b6, s 21 b7, s 22 b8, s 23 b9]" .
  have "update_charge ps 2 3 5 = block_pass ps1 3 5"
    by (simp add: update_charge_def rp)
  then have "map charge (update_charge ps 2 3 5) = map charge (block_pass ps1 3 5)"
    by (rule arg_cong)
  also have "\<dots> = [Some True, Some True, None, None]
         @ [Some False, Some False, Some False, Some False, Some False]
         @ replicate 15 None"
    unfolding bp by (simp add: numeral_eq_Suc)
  finally show ?thesis
    unfolding ps_def .
qed

theorem scenario_update_charge_witness:
  "length (replicate 20 (''NORMAL'', 1 / 5 :: rat)) = 20
   \<and> map charge (update_charge scenario_24 2 3 5)
       = [Some True, Some True, None, None]
         @ [Some False, Some False, Some False, Some False, Some False]
         @ replicate 15 None"
proof -
  have l: "length (replicate 20 (''NORMAL'', 1 / 5 :: rat)) = 20"
    by simp
  show ?thesis
    using scenario_update_charge [OF l, of 0 "''NORMAL''" "''NORMAL''" "''NORMAL''" "''NORMAL''"] l
    unfolding scenario_24_def by blast
qed

text \<open>
  The claim as stated has hours 1 and 3 marked for charging. Hour 3 lies outside the
  window of the first three undecided slots and stays undecided; hour 0 is marked.
\<close>

theorem scenario_hour_3_not_reserved:
  "charge (update_charge scenario_24 2 3 5 ! 3) \<noteq> Some True
   \<and> charge (update_charge scenario_24 2 3 5 ! 0) = Some True"
  by code_simp

section \<open>Properties of the trip charge planner\<close>

lemma mark_full_eq:
  "mark_full ps =
     map (\<lambda>p. if charge p = None then p\<lparr>charge := Some False\<rparr> else p)
         (takeWhile (\<lambda>p. charge p \<noteq> Some False) ps)
     @ dropWhile (\<lambda>p. charge p \<noteq> Some False) ps"
  by (induction ps) auto

lemma short_trip_charge: "event_charge default_config short_trip = 51"
  by (simp add: event_charge_def default_config_def short_trip_def Let_def ceiling_eq_iff)

lemma short_trip_needed: "event_hours_needed default_config 10 short_trip = 5"
  by (simp add: event_hours_needed_def short_trip_charge CHARGE_POWER_def ceiling_eq_iff)

lemma short_trip_budget: "event_hours_budget 0 short_trip = 2"
  by (simp add: event_hours_budget_def short_trip_def Let_def floor_eq_iff)

lemma short_trip_duration: "event_hours_duration short_trip = 1"
  by (simp add: event_hours_duration_def short_trip_def Let_def ceiling_eq_iff)

text \<open>
  Claim C7. Whenever an event leaves \<^verbatim>\<open>charge_left\<close> at exactly zero, the list the
  event step returns is the list \<^verbatim>\<open>update_charge\<close> gave with a sweep applied: in
  the longest prefix that holds no slot marked not fit for charging, every undecided
  slot becomes not fit for charging (and a slot marked for charging is kept); from
  the first slot that is marked not fit for charging on, the list is unchanged.
\<close>

theorem sweep_when_charge_left_zero:
  assumes "snd (event_step cfg now_s (prices, charge_left) ev) = 0"
  shows "fst (event_step cfg now_s (prices, charge_left) ev) =
     map (\<lambda>p. if charge p = None then p\<lparr>charge := Some False\<rparr> else p)
       (takeWhile (\<lambda>p. charge p \<noteq> Some False)
          (update_charge prices (event_hours_needed cfg charge_left ev)
             (event_hours_budget now_s ev) (event_hours_duration ev)))
     @ dropWhile (\<lambda>p. charge p \<noteq> Some False)
         (update_charge prices (event_hours_needed cfg charge_left ev)
            (event_hours_budget now_s ev) (event_hours_duration ev))"
  using assms by (simp add: event_step_def Let_def mark_full_eq)

theorem sweep_when_charge_left_zero_witness:
  "snd (event_step default_config 0 (six_hours, 10) short_trip) = 0
   \<and> map charge (update_charge six_hours 5 2 1)
       = [Some True, Some True, None, Some False, None, None]
   \<and> map charge (fst (event_step default_config 0 (six_hours, 10) short_trip))
       = [Some True, Some True, Some False, Some False, None, None]"
proof -
  have z: "snd (event_step default_config 0 (six_hours, 10) short_trip) = 0"
    by (simp add: event_step_def Let_def short_trip_charge)
  have u: "update_charge six_hours 5 2 1 = one_trip_planned"
    by (simp add: one_trip_planned_def)
  show ?thesis
    using z sweep_when_charge_left_zero [OF z]
    by (simp add: short_trip_needed short_trip_budget short_trip_duration u one_trip_planned_eq)
qed

text \<open>
  Claim C4, as amended. With no event: without calendar access the planning step
  returns the carried \<^verbatim>\<open>charge_needed\<close> and the fetched prices as they are; with
  calendar access it returns the slot list as it is, and \<^verbatim>\<open>charge_needed\<close> is
  set to \<^verbatim>\<open>CHARGE_MINIMUM\<close> (to 0 if that is negative), whatever the carried
  value was. The division by \<^verbatim>\<open>BATTERY_CAPACITY\<close> needs it non-zero.
\<close>

theorem plan_no_events:
  assumes "events inp = []"
  shows "(\<not> google inp \<longrightarrow> plan cfg inp charge_needed0 fetched_prices = Inr (charge_needed0, fetched_prices))
       \<and> (google inp \<longrightarrow> BATTERY_CAPACITY cfg \<noteq> 0 \<longrightarrow>
            plan cfg inp charge_needed0 (Prices prices)
              = Inr (max 0 (CHARGE_MINIMUM cfg), Prices prices))"
proof -
  have "\<lceil>max 0 (rat_of_int (CHARGE_MINIMUM cfg))\<rceil> = max 0 (CHARGE_MINIMUM cfg)"
    by (simp add: max_def)
  then show ?thesis
    using assms by (simp add: plan_def)
qed

theorem plan_no_events_witness:
  "events no_events = [] \<and> google no_events \<and> BATTERY_CAPACITY default_config \<noteq> 0
   \<and> plan default_config no_events 60 (Prices six_hours) = Inr (32, Prices six_hours)
   \<and> events (no_database False) = [] \<and> \<not> google (no_database False)
   \<and> plan default_config (no_database False) 60 (Prices six_hours) = Inr (60, Prices six_hours)"
proof -
  have e: "events no_events = []" "events (no_database False) = []"
    by (simp_all add: no_events_def no_database_def)
  have g: "google no_events" "\<not> google (no_database False)"
    "BATTERY_CAPACITY default_config \<noteq> 0" "max 0 (CHARGE_MINIMUM default_config) = 32"
    by (simp_all add: no_events_def no_database_def default_config_def)
  show ?thesis
    using plan_no_events [OF e(1), of default_config 60 "Prices six_hours" six_hours]
      plan_no_events [OF e(2), of default_config 60 "Prices six_hours" six_hours] e g
    by simp
qed

text \<open>
  The claim as stated fails with calendar access and no event found: a carried
  \<^verbatim>\<open>charge_needed\<close> of 60 comes back as the minimum, 32.
\<close>

theorem plan_no_events_resets_charge_needed:
  "events no_events = []
   \<and> plan default_config no_events 60 (Prices six_hours) = Inr (32, Prices six_hours)
   \<and> plan default_config no_events 60 (Prices six_hours) \<noteq> Inr (60, Prices six_hours)"
  by (simp add: plan_def no_events_def default_config_def)

section \<open>Properties of the charging policy\<close>

text \<open>
  Claim C3. The chain is tried in the order event-driven charge, minimum floor,
  cheap, very cheap, no window, and the first branch whose test holds decides. In
  particular, below the minimum and below \<^verbatim>\<open>charge_needed\<close> with the current slot
  marked for charging, the event-driven branch is taken, with \<^verbatim>\<open>charge_needed\<close>
  as the limit and not the minimum.
\<close>

theorem policy_priority:
  "(battery_level c < cn \<and> charge_slot now_s prices \<longrightarrow>
      policy cfg c cn now_s prices = Inr (ChargeNeeded, charge_to cfg c cn))
   \<and> (\<not> (battery_level c < cn \<and> charge_slot now_s prices)
        \<and> battery_level c < CHARGE_MINIMUM cfg \<and> CHARGE_AMPS_MAX cfg \<noteq> 0 \<longrightarrow>
      policy cfg c cn now_s prices = Inr (ChargeMinimum, charge_to cfg c (CHARGE_MINIMUM cfg)))
   \<and> (\<not> (battery_level c < cn \<and> charge_slot now_s prices)
        \<and> \<not> battery_level c < CHARGE_MINIMUM cfg \<and> prices = p0 # rest
        \<and> level p0 = ''CHEAP'' \<and> battery_level c < CHARGE_CHEAP cfg
        \<and> CHARGE_AMPS_MAX cfg \<noteq> 0 \<longrightarrow>
      policy cfg c cn now_s prices = Inr (ChargeCheap, charge_to cfg c (CHARGE_CHEAP cfg)))
   \<and> (\<not> (battery_level c < cn \<and> charge_slot now_s prices)
        \<and> \<not> battery_level c < CHARGE_MINIMUM cfg \<and> prices = p0 # rest
        \<and> \<not> (level p0 = ''CHEAP'' \<and> battery_level c < CHARGE_CHEAP cfg)
        \<and> level p0 = ''VERY_CHEAP'' \<and> battery_level c < CHARGE_VERY_CHEAP cfg
        \<and> CHARGE_AMPS_MAX cfg \<noteq> 0 \<longrightarrow>
      policy cfg c cn now_s prices = Inr (ChargeVeryCheap, charge_to cfg c (CHARGE_VERY_CHEAP cfg)))
   \<and> (\<not> (battery_level c < cn \<and> charge_slot now_s prices)
        \<and> \<not> battery_level c < CHARGE_MINIMUM cfg \<and> prices = p0 # rest
        \<and> \<not> (level p0 = ''CHEAP'' \<and> battery_level c < CHARGE_CHEAP cfg)
        \<and> \<not> (level p0 = ''VERY_CHEAP'' \<and> battery_level c < CHARGE_VERY_CHEAP cfg) \<longrightarrow>
      policy cfg c cn now_s prices = Inr (NoChargingWindow, stop_charging cfg c))
   \<and> (battery_level c < CHARGE_MINIMUM cfg \<and> battery_level c < cn
        \<and> charge_slot now_s prices \<longrightarrow>
      policy cfg c cn now_s prices = Inr (ChargeNeeded, charge_to cfg c cn)
      \<and> (battery_limit c \<noteq> cn \<longrightarrow> SetChargeLimit cn \<in> set (charge_to cfg c cn))
      \<and> (cn \<noteq> CHARGE_MINIMUM cfg \<longrightarrow>
            SetChargeLimit (CHARGE_MINIMUM cfg) \<notin> set (charge_to cfg c cn)))"
proof (intro conjI impI)
  assume "battery_level c < CHARGE_MINIMUM cfg \<and> battery_level c < cn \<and> charge_slot now_s prices"
  then show "policy cfg c cn now_s prices = Inr (ChargeNeeded, charge_to cfg c cn)"
    by (simp add: policy_def)
next
  assume "battery_limit c \<noteq> cn"
  then show "SetChargeLimit cn \<in> set (charge_to cfg c cn)"
    by (simp add: charge_to_def)
next
  assume "cn \<noteq> CHARGE_MINIMUM cfg"
  then show "SetChargeLimit (CHARGE_MINIMUM cfg) \<notin> set (charge_to cfg c cn)"
    by (simp add: charge_to_def)
qed (auto simp: policy_def simp del: charge_slot.simps)

theorem policy_priority_witness:
  "battery_level (parked_car 20 50) < CHARGE_MINIMUM default_config
   \<and> battery_level (parked_car 20 50) < 61
   \<and> charge_slot 3600 one_trip_planned
   \<and> policy default_config (parked_car 20 50) 61 3600 one_trip_planned
       = Inr (ChargeNeeded, [SetChargeLimit 61, StartCharging])"
proof -
  have b: "battery_level (parked_car 20 50) < CHARGE_MINIMUM default_config"
    "battery_level (parked_car 20 50) < 61"
    by (simp_all add: parked_car_def default_config_def)
  have s: "charge_slot 3600 one_trip_planned"
    by (simp add: one_trip_planned_eq)
  have t: "charge_to default_config (parked_car 20 50) 61 = [SetChargeLimit 61, StartCharging]"
    by (simp add: charge_to_def parked_car_def default_config_def)
  show ?thesis
    using policy_priority [of "parked_car 20 50" 61 3600 one_trip_planned default_config] b s t
    by simp
qed

section \<open>Properties of one pass of the main loop\<close>

text \<open>
  Claim C5 does not hold of the code. When the price database cannot be reached,
  \<^verbatim>\<open>get_electricity_prices\<close> returns \<^verbatim>\<open>-1\<close>, and a pass that gets as far as the
  price fetch (car at home, cable connected, no user override) then raises
  \<^verbatim>\<open>TypeError\<close>: at \<^verbatim>\<open>len(prices)\<close> with calendar access, at
  \<^verbatim>\<open>for price in prices\<close> without. The loop catches only \<^verbatim>\<open>KeyboardInterrupt\<close>.
\<close>

theorem price_failure_raises:
  assumes "\<not> (\<bar>latitude (car inp) - HOME_LAT cfg\<bar> > 1 / 1000
              \<or> \<bar>longitude (car inp) - HOME_LON cfg\<bar> > 1 / 1000)"
    and "charge_port (car inp) = ''Engaged''"
    and "battery_limit (car inp) = CHARGE_DEFAULT cfg \<or> battery_limit (car inp) = CHARGE_CHEAP cfg
         \<or> battery_limit (car inp) = CHARGE_VERY_CHEAP cfg
         \<or> battery_limit (car inp) = charge_needed st"
    and "db inp = ConnectFailed"
  shows "cycle cfg st inp = Inl TypeError"
  using assms
  by (auto simp: cycle_def Let_def get_electricity_prices_def plan_def)

theorem price_failure_raises_witness:
  "charge_port (car (no_database True)) = ''Engaged''
   \<and> db (no_database True) = ConnectFailed
   \<and> cycle default_config (initial_state default_config) (no_database True) = Inl TypeError"
proof -
  have a: "\<not> (\<bar>latitude (car (no_database True)) - HOME_LAT default_config\<bar> > 1 / 1000
              \<or> \<bar>longitude (car (no_database True)) - HOME_LON default_config\<bar> > 1 / 1000)"
    by (simp add: no_database_def parked_car_def default_config_def)
  have b: "charge_port (car (no_database True)) = ''Engaged''"
    by (simp add: no_database_def parked_car_def)
  have c: "battery_limit (car (no_database True)) = CHARGE_DEFAULT default_config
         \<or> battery_limit (car (no_database True)) = CHARGE_CHEAP default_config
         \<or> battery_limit (car (no_database True)) = CHARGE_VERY_CHEAP default_config
         \<or> battery_limit (car (no_database True)) = charge_needed (initial_state default_config)"
    by (simp add: no_database_def parked_car_def default_config_def)
  have d: "db (no_database True) = ConnectFailed"
    by (simp add: no_database_def)
  show ?thesis
    using price_failure_raises [OF a b c d] b d by simp
qed

lemma trip_at_10_charge: "event_charge raised_minimum (trip_at 10) = 51"
  by (simp add: event_charge_def raised_minimum_def default_config_def trip_at_def Let_def ceiling_eq_iff)

lemma trip_at_10_needed: "event_hours_needed raised_minimum 10 (trip_at 10) = 5"
  by (simp add: event_hours_needed_def trip_at_10_charge CHARGE_POWER_def ceiling_eq_iff)

lemma trip_at_10_budget: "event_hours_budget 0 (trip_at 10) = 9"
  by (simp add: event_hours_budget_def trip_at_def Let_def floor_eq_iff)

lemma trip_at_10_duration: "event_hours_duration (trip_at 10) = 4"
  by (simp add: event_hours_duration_def trip_at_def Let_def ceiling_eq_iff)

lemma expensive_first_marked:
  "mark_full (update_charge (map slot_of_record expensive_first) 5 9 4) = first_pass_marked"
  by code_simp

lemma first_pass_step:
  "event_step raised_minimum 0 (map slot_of_record expensive_first, 10) (trip_at 10)
     = (first_pass_marked, 0)"
  by (simp add: event_step_def Let_def trip_at_10_charge trip_at_10_needed trip_at_10_budget
      trip_at_10_duration expensive_first_marked)

lemma fetch_expensive_first:
  "get_electricity_prices (Rows expensive_first) = Inr (Prices (map slot_of_record expensive_first))"
  by (simp add: get_electricity_prices_def expensive_first_def hourly_rows_def
      enumerate_eq_zip upt_rec split: list.split)

lemma first_pass_plan:
  "plan raised_minimum first_pass 55 (Prices (map slot_of_record expensive_first))
     = Inr (61, Prices first_pass_marked)"
proof -
  have e: "events first_pass = [trip_at 10]" "google first_pass" "now first_pass = 0"
    "total_distance first_pass = 85000" "battery_level (car first_pass) = 20"
    by (simp_all add: first_pass_def parked_car_def)
  have c: "BATTERY_CAPACITY raised_minimum = 100" "CHARGE_RETURNING raised_minimum = 10"
    "CHARGE_MINIMUM raised_minimum = 55" "KWH_PER_KILOMETER raised_minimum = 1 / 4"
    by (simp_all add: raised_minimum_def default_config_def)
  show ?thesis
    by (simp add: plan_def e c first_pass_step ceiling_eq_iff)
qed

lemma first_pass_marked_slot: "charge_slot 0 first_pass_marked = False"
  by (simp add: first_pass_marked_def)

lemma first_pass_policy:
  "policy raised_minimum (parked_car 20 50) 61 0 first_pass_marked
     = Inr (ChargeMinimum, [SetChargeLimit 55, StartCharging])"
  by (simp add: policy_def first_pass_marked_slot charge_to_def parked_car_def raised_minimum_def default_config_def)

lemma first_pass_cycle:
  "cycle raised_minimum (initial_state raised_minimum) first_pass
     = Inr (ChargeMinimum, [SetChargeLimit 55, StartCharging],
            \<lparr>car_away = False, charge_needed = 61\<rparr>)"
proof -
  have i: "car first_pass = parked_car 20 50" "db first_pass = Rows expensive_first"
    "now first_pass = 0"
    by (simp_all add: first_pass_def)
  have g: "latitude (parked_car 20 50) = HOME_LAT raised_minimum"
    "longitude (parked_car 20 50) = HOME_LON raised_minimum"
    "charge_port (parked_car 20 50) = ''Engaged''" "battery_limit (parked_car 20 50) = 50"
    "CHARGE_DEFAULT raised_minimum = 50"
    "initial_state raised_minimum = \<lparr>car_away = False, charge_needed = 55\<rparr>"
    by (simp_all add: parked_car_def raised_minimum_def default_config_def initial_state_def)
  show ?thesis
    by (simp add: cycle_def Let_def i g fetch_expensive_first first_pass_plan first_pass_policy)
qed

lemma second_pass_cycle:
  "cycle raised_minimum \<lparr>car_away = False, charge_needed = 61\<rparr> second_pass
     = Inr (UserOverride, [], \<lparr>car_away = False, charge_needed = 61\<rparr>)"
  by (simp add: cycle_def Let_def second_pass_def parked_car_def raised_minimum_def default_config_def)

text \<open>
  Claim C10. There is a run of two passes, from the initial loop state, in which the
  first pass takes the minimum-floor branch and sets the limit to
  \<^verbatim>\<open>CHARGE_MINIMUM\<close> while the planner has raised \<^verbatim>\<open>charge_needed\<close> above it,
  and the second pass, with the car reporting that limit and a battery still below
  the minimum, takes the limit for a user override and sends no command.
\<close>

theorem minimum_limit_taken_for_user_override:
  "\<exists>cfg inp1 inp2 cmds st1.
     cycle cfg (initial_state cfg) inp1 = Inr (ChargeMinimum, cmds, st1)
     \<and> SetChargeLimit (CHARGE_MINIMUM cfg) \<in> set cmds
     \<and> charge_needed st1 \<noteq> CHARGE_MINIMUM cfg
     \<and> CHARGE_MINIMUM cfg \<noteq> CHARGE_DEFAULT cfg
     \<and> CHARGE_MINIMUM cfg \<noteq> CHARGE_CHEAP cfg
     \<and> CHARGE_MINIMUM cfg \<noteq> CHARGE_VERY_CHEAP cfg
     \<and> battery_limit (car inp2) = CHARGE_MINIMUM cfg
     \<and> battery_level (car inp2) < CHARGE_MINIMUM cfg
     \<and> latitude (car inp2) = HOME_LAT cfg \<and> longitude (car inp2) = HOME_LON cfg
     \<and> charge_port (car inp2) = ''Engaged''
     \<and> cycle cfg st1 inp2 = Inr (UserOverride, [], st1)"
proof -
  have "SetChargeLimit (CHARGE_MINIMUM raised_minimum) \<in> set [SetChargeLimit 55, StartCharging]"
    "charge_needed \<lparr>car_away = False, charge_needed = 61\<rparr> \<noteq> CHARGE_MINIMUM raised_minimum"
    "CHARGE_MINIMUM raised_minimum \<noteq> CHARGE_DEFAULT raised_minimum"
    "CHARGE_MINIMUM raised_minimum \<noteq> CHARGE_CHEAP raised_minimum"
    "CHARGE_MINIMUM raised_minimum \<noteq> CHARGE_VERY_CHEAP raised_minimum"
    "battery_limit (car second_pass) = CHARGE_MINIMUM raised_minimum"
    "battery_level (car second_pass) < CHARGE_MINIMUM raised_minimum"
    "latitude (car second_pass) = HOME_LAT raised_minimum"
    "longitude (car second_pass) = HOME_LON raised_minimum"
    "charge_port (car second_pass) = ''Engaged''"
    by (simp_all add: raised_minimum_def default_config_def second_pass_def parked_car_def)
  with first_pass_cycle second_pass_cycle show ?thesis
    by blast
qed

end
